theory Spec2Isabelle
  imports Main "HOL-Library.AList"
begin

section \<open>Values of the JavaScript runtime\<close>

text \<open>
  The handlers of \<^verbatim>\<open>app.js\<close> only move JSON values around: request bodies decoded by
  \<^verbatim>\<open>express.json()\<close>, the \<^verbatim>\<open>data\<close> column of a row, response bodies. An object is an
  association list in property order; \<^verbatim>\<open>undefined\<close> is \<open>None\<close> of \<open>json option\<close>.
  Numbers are kept as integers: no handler computes with a number that is not one.
  A \<open>char\<close> stands for a UTF-16 code unit below 256.
\<close>

datatype json =
    JNull
  | JBool bool
  | JNum int
  | JStr string
  | JArr "json list"
  | JObj "(string \<times> json) list"

type_synonym jsobject = "(string \<times> json) list"

definition js_get :: "jsobject \<Rightarrow> string \<Rightarrow> json option" where
  "js_get ob k = map_of ob k"

text \<open>An object literal \<^verbatim>\<open>{k1: e1, ...}\<close> as it is serialised: a property whose
  value is \<^verbatim>\<open>undefined\<close> is left out by \<^verbatim>\<open>JSON.stringify\<close> and \<^verbatim>\<open>res.json\<close>.\<close>

fun js_object :: "(string \<times> json option) list \<Rightarrow> jsobject" where
  "js_object [] = []"
| "js_object ((k, None) # ps) = js_object ps"
| "js_object ((k, Some v) # ps) = (k, v) # js_object ps"

text \<open>\<^verbatim>\<open>!x\<close> is true exactly when \<open>x\<close> is not truthy.\<close>

fun js_truthy :: "json option \<Rightarrow> bool" where
  "js_truthy None = False"
| "js_truthy (Some JNull) = False"
| "js_truthy (Some (JBool b)) = b"
| "js_truthy (Some (JNum n)) = (n \<noteq> 0)"
| "js_truthy (Some (JStr s)) = (s \<noteq> [])"
| "js_truthy (Some (JArr xs)) = True"
| "js_truthy (Some (JObj ps)) = True"

fun js_typeof :: "json option \<Rightarrow> string" where
  "js_typeof None = ''undefined''"
| "js_typeof (Some JNull) = ''object''"
| "js_typeof (Some (JBool b)) = ''boolean''"
| "js_typeof (Some (JNum n)) = ''number''"
| "js_typeof (Some (JStr s)) = ''string''"
| "js_typeof (Some (JArr xs)) = ''object''"
| "js_typeof (Some (JObj ps)) = ''object''"

text \<open>\<^verbatim>\<open>a ?? b\<close>: the right operand when the left one is \<^verbatim>\<open>undefined\<close> or \<^verbatim>\<open>null\<close>.\<close>

fun js_nullish :: "json option \<Rightarrow> json \<Rightarrow> json" where
  "js_nullish None d = d"
| "js_nullish (Some JNull) d = d"
| "js_nullish (Some v) d = v"

text \<open>White space and line terminators below code unit 256: TAB, LF, VT, FF, CR, SP, NBSP.\<close>

definition js_whitespace :: "char \<Rightarrow> bool" where
  "js_whitespace c = ((of_char c :: nat) \<in> {9, 10, 11, 12, 13, 32, 160})"

definition js_trim :: "string \<Rightarrow> string" where
  "js_trim s = rev (dropWhile js_whitespace (rev (dropWhile js_whitespace s)))"

subsection \<open>Decimal numerals\<close>

definition digit_char :: "nat \<Rightarrow> char" where
  "digit_char d = char_of (48 + d)"

definition is_digit :: "char \<Rightarrow> bool" where
  "is_digit c = (48 \<le> (of_char c :: nat) \<and> (of_char c :: nat) \<le> 57)"

definition digit_val :: "char \<Rightarrow> nat" where
  "digit_val c = of_char c - 48"

fun decimal_nat :: "nat \<Rightarrow> string" where
  "decimal_nat n = (if n < 10 then [digit_char n] else decimal_nat (n div 10) @ [digit_char (n mod 10)])"

declare decimal_nat.simps [simp del]

text \<open>The decimal representation of an integer, as \<^verbatim>\<open>String(n)\<close> gives it for an
  integral number and as Redis stores the result of \<^verbatim>\<open>INCR\<close> and \<^verbatim>\<open>DECR\<close>.\<close>

definition decimal :: "int \<Rightarrow> string" where
  "decimal i = (if i < 0 then CHR ''-'' # decimal_nat (nat (- i)) else decimal_nat (nat i))"

definition digits_val :: "string \<Rightarrow> int" where
  "digits_val ds = foldl (\<lambda>a c. 10 * a + int (digit_val c)) 0 ds"

text \<open>The integer a string is the decimal representation of, if it is one: digits
  after an optional \<^verbatim>\<open>-\<close>, with no leading zero, no \<^verbatim>\<open>+\<close> and no white space.\<close>

definition decimal_value :: "string \<Rightarrow> int option" where
  "decimal_value s =
     (let ds = (case s of [] \<Rightarrow> [] | c # r \<Rightarrow> if c = CHR ''-'' then r else s);
          v = (case s of [] \<Rightarrow> 0 | c # r \<Rightarrow> if c = CHR ''-'' then - digits_val ds else digits_val ds)
      in if ds \<noteq> [] \<and> list_all is_digit ds \<and> decimal v = s then Some v else None)"

fun join_comma :: "string list \<Rightarrow> string" where
  "join_comma [] = []"
| "join_comma [s] = s"
| "join_comma (s # t # ss) = s @ CHR '','' # join_comma (t # ss)"

text \<open>\<^verbatim>\<open>String(v)\<close>. An array joins the strings of its elements with commas, \<^verbatim>\<open>null\<close>
  elements giving the empty string; an object gives \<^verbatim>\<open>[object Object]\<close>.\<close>

fun js_String_val :: "json \<Rightarrow> string" where
  "js_String_val JNull = ''null''"
| "js_String_val (JBool b) = (if b then ''true'' else ''false'')"
| "js_String_val (JNum n) = decimal n"
| "js_String_val (JStr s) = s"
| "js_String_val (JArr xs) = join_comma (map (\<lambda>x. if x = JNull then [] else js_String_val x) xs)"
| "js_String_val (JObj ps) = ''[object Object]''"

definition js_String :: "json option \<Rightarrow> string" where
  "js_String v = (case v of None \<Rightarrow> ''undefined'' | Some x \<Rightarrow> js_String_val x)"

subsection \<open>Numbers are doubles\<close>

text \<open>The number of binary digits of a natural number.\<close>

fun bits :: "nat \<Rightarrow> nat" where
  "bits n = (if n = 0 then 0 else Suc (bits (n div 2)))"

declare bits.simps [simp del]

text \<open>The double nearest to a non-negative integer \<open>m\<close>, ties to the even significand:
  \<open>m\<close> is cut to its 53 leading binary digits and rounded on the rest. \<open>None\<close> when the
  rounded value reaches \<open>2 ^ 1024\<close>, where a double overflows.\<close>

definition round_double :: "int \<Rightarrow> int option" where
  "round_double m =
     (let e = bits (nat m) - 53;
          q = m div 2 ^ e;
          r = m mod 2 ^ e;
          q' = (if 2 ^ e < 2 * r \<or> (2 * r = 2 ^ e \<and> odd q) then q + 1 else q)
      in if 2 ^ 1024 \<le> q' * 2 ^ e then None else Some (q' * 2 ^ e))"

text \<open>The numbers \<^verbatim>\<open>parseInt\<close> can return: \<^verbatim>\<open>NaN\<close>, an infinity, or a double whose value
  is an integer.\<close>

datatype js_number = NaN | PosInfinity | NegInfinity | Num int

definition to_number :: "int \<Rightarrow> js_number" where
  "to_number i =
     (case round_double (abs i) of
        None \<Rightarrow> if i < 0 then NegInfinity else PosInfinity
      | Some m \<Rightarrow> Num (if i < 0 then - m else m))"

text \<open>\<^verbatim>\<open>parseInt(s, 10)\<close>: leading white space is skipped, one sign is read, then the
  longest run of decimal digits, and the integer read is returned as a number, that is,
  as the nearest double. No digit gives \<^verbatim>\<open>NaN\<close>. (Past 20 significant digits an engine
  may read the further digits as zeros; the rounding here is the exact one.)\<close>

definition parseInt :: "string \<Rightarrow> js_number" where
  "parseInt s =
     (let t = dropWhile js_whitespace s;
          neg = (case t of [] \<Rightarrow> False | c # r \<Rightarrow> c = CHR ''-'');
          u = (case t of [] \<Rightarrow> [] | c # r \<Rightarrow> if c = CHR ''-'' \<or> c = CHR ''+'' then r else t);
          ds = takeWhile is_digit u
      in if ds = [] then NaN
         else to_number (if neg then - digits_val ds else digits_val ds))"

text \<open>A number as \<^verbatim>\<open>res.json\<close> serialises it: \<^verbatim>\<open>NaN\<close> and the infinities become
  \<^verbatim>\<open>null\<close>.\<close>

definition json_of_number :: "js_number \<Rightarrow> json" where
  "json_of_number x = (case x of Num n \<Rightarrow> JNum n | _ \<Rightarrow> JNull)"

section \<open>The two stores\<close>

text \<open>
  The process state the handlers share: the table \<^verbatim>\<open>tasks\<close> behind \<^verbatim>\<open>pool\<close> and the keys
  behind \<^verbatim>\<open>redisClient\<close>, each with a flag telling whether the server can be reached.
\<close>

text \<open>Modelled from the spec: the declaration of the table \<^verbatim>\<open>tasks\<close>, which is not part
  of the sources. The table holds \<open>(id, data)\<close>, the id an integer assigned by the store
  from a sequence, \<open>data\<close> a semi-structured document.\<close>

record world =
  tasks :: "(int \<times> json) list"
  tasks_id_seq :: int
  pg_up :: bool
  redis :: "(string \<times> string) list"
  redis_up :: bool

datatype error =
    PgConnectionError
  | PgSyntaxError
  | PgProtocolError
  | PgNumericOutOfRange
  | PgInvalidText
  | RedisConnectionError
  | RedisNotAnInteger
  | TypeError

subsection \<open>Redis\<close>

text \<open>The integer a string denotes for \<^verbatim>\<open>INCR\<close> and \<^verbatim>\<open>DECR\<close>: the string has to be the
  decimal representation of a 64-bit signed integer, with no sign \<^verbatim>\<open>+\<close>, no white space
  and no leading zero.\<close>

definition string2ll :: "string \<Rightarrow> int option" where
  "string2ll s =
     (case decimal_value s of
        None \<Rightarrow> None
      | Some v \<Rightarrow>
          if - 9223372036854775808 \<le> v \<and> v \<le> 9223372036854775807 then Some v else None)"

definition redis_get :: "string \<Rightarrow> world \<Rightarrow> error + string option" where
  "redis_get k w = (if redis_up w then Inr (map_of (redis w) k) else Inl RedisConnectionError)"

definition redis_set :: "string \<Rightarrow> string \<Rightarrow> world \<Rightarrow> error + world" where
  "redis_set k v w =
     (if redis_up w then Inr (w\<lparr>redis := AList.update k v (redis w)\<rparr>)
      else Inl RedisConnectionError)"

text \<open>\<^verbatim>\<open>INCRBY\<close>: a missing key counts as 0; a value that is not an integer, or a result
  outside the 64-bit range, is an error and leaves the key as it was.\<close>

definition redis_incrby :: "int \<Rightarrow> string \<Rightarrow> world \<Rightarrow> error + (int \<times> world)" where
  "redis_incrby d k w =
     (if redis_up w then
        (case (case map_of (redis w) k of None \<Rightarrow> Some 0 | Some s \<Rightarrow> string2ll s) of
           None \<Rightarrow> Inl RedisNotAnInteger
         | Some v \<Rightarrow>
             if v + d < - 9223372036854775808 \<or> 9223372036854775807 < v + d
             then Inl RedisNotAnInteger
             else Inr (v + d, w\<lparr>redis := AList.update k (decimal (v + d)) (redis w)\<rparr>))
      else Inl RedisConnectionError)"

definition redis_incr :: "string \<Rightarrow> world \<Rightarrow> error + (int \<times> world)" where
  "redis_incr k w = redis_incrby 1 k w"

definition redis_decr :: "string \<Rightarrow> world \<Rightarrow> error + (int \<times> world)" where
  "redis_decr k w = redis_incrby (- 1) k w"

subsection \<open>PostgreSQL\<close>

text \<open>
  \<^verbatim>\<open>pool.query(text, values)\<close> sends the statement text to the server as it is, with the
  values bound to the positional parameters \<^verbatim>\<open>$1\<close>, \<^verbatim>\<open>$2\<close>, ... of the text. The server
  reads a parameter as \<^verbatim>\<open>$\<close> followed by digits. A \<^verbatim>\<open>$\<close> followed by anything else is
  not a parameter: outside a quoted string (the statements of \<^verbatim>\<open>app.js\<close> have none) it
  is a token of its own that no statement may contain, and the server rejects the text
  with a syntax error before it looks at the values.
\<close>

fun pg_lex_ok :: "string \<Rightarrow> bool" where
  "pg_lex_ok [] = True"
| "pg_lex_ok [c] = (c \<noteq> CHR ''$'')"
| "pg_lex_ok (c # d # cs) = ((if c = CHR ''$'' then is_digit d else True) \<and> pg_lex_ok (d # cs))"

text \<open>A bound value. The path parameter \<^verbatim>\<open>req.params.id\<close> is bound as the string it
  is. The text \<^verbatim>\<open>JSON.stringify\<close> produces, and the server's reading of it into the
  \<^verbatim>\<open>jsonb\<close> column, are collapsed into passing the JSON value.\<close>

datatype pg_value = PgText string | PgJson json

text \<open>Modelled from the spec: the type of the column \<^verbatim>\<open>id\<close>, whose declaration is not part
  of the sources. The ids are store-assigned from a sequence (1, 2, ... in the scenarios);
  the column is taken to be a 32-bit \<^verbatim>\<open>integer\<close>. A string bound where an id is expected
  is read by the server as such an integer: white space around it is skipped, one sign is
  read, then decimal digits and nothing else; any other string, and a value out of
  range, is an input error.\<close>

definition pg_space :: "char \<Rightarrow> bool" where
  "pg_space c = ((of_char c :: nat) \<in> {9, 10, 11, 12, 13, 32})"

definition pg_int4 :: "string \<Rightarrow> int option" where
  "pg_int4 s =
     (let t = dropWhile pg_space s;
          neg = (case t of [] \<Rightarrow> False | c # r \<Rightarrow> c = CHR ''-'');
          u = (case t of [] \<Rightarrow> [] | c # r \<Rightarrow> if c = CHR ''-'' \<or> c = CHR ''+'' then r else t);
          ds = takeWhile is_digit u;
          v = (if neg then - digits_val ds else digits_val ds)
      in if ds \<noteq> [] \<and> list_all pg_space (dropWhile is_digit u)
            \<and> - 2147483648 \<le> v \<and> v \<le> 2147483647
         then Some v else None)"

definition JSON_stringify :: "json \<Rightarrow> pg_value" where
  "JSON_stringify v = PgJson v"

record qresult =
  res_rows :: "jsobject list"
  rowCount :: nat

definition task_row :: "int \<times> json \<Rightarrow> jsobject" where
  "task_row r = [(''id'', JNum (fst r)), (''data'', snd r)]"

definition select_result :: "(int \<times> json) list \<Rightarrow> qresult" where
  "select_result rs = \<lparr>res_rows = map task_row rs, rowCount = length rs\<rparr>"

text \<open>The server, on the statements a client of the table \<^verbatim>\<open>tasks\<close> may send. The
  insert and the update it understands are the ones written with positional parameters.\<close>

definition pool_query :: "string \<Rightarrow> pg_value list \<Rightarrow> world \<Rightarrow> error + (qresult \<times> world)" where
  "pool_query text vals w =
     (if \<not> pg_up w then Inl PgConnectionError
      else if \<not> pg_lex_ok text then Inl PgSyntaxError
      else if text = ''SELECT COUNT(*)::int AS count FROM tasks;'' then
        (case vals of
           [] \<Rightarrow>
             if 2147483647 < int (length (tasks w)) then Inl PgNumericOutOfRange
             else Inr (\<lparr>res_rows = [[(''count'', JNum (int (length (tasks w))))]], rowCount = 1\<rparr>, w)
         | _ \<Rightarrow> Inl PgProtocolError)
      else if text = ''SELECT * FROM tasks;'' then
        (case vals of
           [] \<Rightarrow> Inr (select_result (tasks w), w)
         | _ \<Rightarrow> Inl PgProtocolError)
      else if text = ''SELECT * FROM tasks WHERE id = $1;'' then
        (case vals of
           [PgText t] \<Rightarrow>
             (case pg_int4 t of
                None \<Rightarrow> Inl PgInvalidText
              | Some i \<Rightarrow> Inr (select_result (filter (\<lambda>r. fst r = i) (tasks w)), w))
         | _ \<Rightarrow> Inl PgProtocolError)
      else if text = ''DELETE FROM tasks WHERE id = $1 RETURNING *;'' then
        (case vals of
           [PgText t] \<Rightarrow>
             (case pg_int4 t of
                None \<Rightarrow> Inl PgInvalidText
              | Some i \<Rightarrow>
                  Inr (select_result (filter (\<lambda>r. fst r = i) (tasks w)),
                       w\<lparr>tasks := filter (\<lambda>r. fst r \<noteq> i) (tasks w)\<rparr>))
         | _ \<Rightarrow> Inl PgProtocolError)
      else if text = ''INSERT INTO tasks (data) VALUES ($1::jsonb) RETURNING id;'' then
        (case vals of
           [PgJson v] \<Rightarrow>
             Inr (\<lparr>res_rows = [[(''id'', JNum (tasks_id_seq w))]], rowCount = 1\<rparr>,
                  w\<lparr>tasks := tasks w @ [(tasks_id_seq w, v)], tasks_id_seq := tasks_id_seq w + 1\<rparr>)
         | _ \<Rightarrow> Inl PgProtocolError)
      else if text = ''UPDATE tasks SET data = $1::jsonb WHERE id = $2;'' then
        (case vals of
           [PgJson v, PgText t] \<Rightarrow>
             (case pg_int4 t of
                None \<Rightarrow> Inl PgInvalidText
              | Some i \<Rightarrow>
                  Inr (\<lparr>res_rows = [], rowCount = length (filter (\<lambda>r. fst r = i) (tasks w))\<rparr>,
                       w\<lparr>tasks := map (\<lambda>r. if fst r = i then (i, v) else r) (tasks w)\<rparr>))
         | _ \<Rightarrow> Inl PgProtocolError)
      else Inl PgSyntaxError)"

section \<open>The handlers of app.js\<close>

record response =
  res_status :: nat
  res_body :: "json option"

definition res_json :: "nat \<Rightarrow> json \<Rightarrow> response" where
  "res_json st v = \<lparr>res_status = st, res_body = Some v\<rparr>"

text \<open>Every \<^verbatim>\<open>catch\<close> block: \<^verbatim>\<open>res.status(500).json({ error: "Server error" })\<close>.\<close>

definition server_error :: response where
  "server_error = res_json 500 (JObj [(''error'', JStr ''Server error'')])"

definition not_found :: response where
  "not_found = res_json 404 (JObj [(''error'', JStr ''Task not found'')])"

definition initializeTaskCount :: "world \<Rightarrow> error + world" where
  "initializeTaskCount w =
     (case redis_get ''taskCount'' w of
        Inl e \<Rightarrow> Inl e
      | Inr (Some cached) \<Rightarrow> Inr w
      | Inr None \<Rightarrow>
          (case pool_query ''SELECT COUNT(*)::int AS count FROM tasks;'' [] w of
             Inl e \<Rightarrow> Inl e
           | Inr (res, w1) \<Rightarrow>
               (case res_rows res of
                  [] \<Rightarrow> Inl TypeError
                | r # rs \<Rightarrow> redis_set ''taskCount'' (js_String (js_get r ''count'')) w1)))"

text \<open>The test of the title, \<^verbatim>\<open>!title || typeof title !== "string" || title.trim() === ""\<close>,
  evaluated left to right.\<close>

definition title_rejected :: "json option \<Rightarrow> bool" where
  "title_rejected title =
     (if \<not> js_truthy title then True
      else if js_typeof title \<noteq> ''string'' then True
      else (case title of Some (JStr s) \<Rightarrow> js_trim s = [] | _ \<Rightarrow> False))"

text \<open>The object literal \<^verbatim>\<open>payload\<close> of the creation:
  \<^verbatim>\<open>{ title, description: description ?? null, status: status ?? "pending" }\<close>.\<close>

definition task_payload :: "json option \<Rightarrow> json option \<Rightarrow> json option \<Rightarrow> jsobject" where
  "task_payload title description status =
     js_object [(''title'', title),
                (''description'', Some (js_nullish description JNull)),
                (''status'', Some (js_nullish status (JStr ''pending'')))]"

text \<open>The handler of \<^verbatim>\<open>POST /tasks\<close>, with the answer of \<^verbatim>\<open>pool.query\<close> to a statement and
  its values taken as the parameter \<open>query\<close>, so that what the handler hands to the store
  can be told from the store's answer to it.\<close>

definition post_tasks_on ::
  "(string \<Rightarrow> pg_value list \<Rightarrow> world \<Rightarrow> error + (qresult \<times> world)) \<Rightarrow>
   jsobject \<Rightarrow> world \<Rightarrow> response \<times> world" where
  "post_tasks_on query req_body w =
     (let title = js_get req_body ''title'';
          description = js_get req_body ''description'';
          status = js_get req_body ''status''
      in if title_rejected title
         then (res_json 400 (JObj [(''error'', JStr ''Title is required'')]), w)
         else
           (let payload = task_payload title description status
            in case query ''INSERT INTO tasks (data) VALUES ($datavalues::jsonb) RETURNING id;''
                      [JSON_stringify (JObj payload)] w of
                 Inl e \<Rightarrow> (server_error, w)
               | Inr (ins, w1) \<Rightarrow>
                   (case redis_incr ''taskCount'' w1 of
                      Inl e \<Rightarrow> (server_error, w1)
                    | Inr (n, w2) \<Rightarrow>
                        (case res_rows ins of
                           [] \<Rightarrow> (server_error, w2)
                         | r # rs \<Rightarrow> (res_json 201 (JObj (js_object [(''id'', js_get r ''id'')])), w2)))))"

text \<open>The handler as it runs: against the PostgreSQL server.\<close>

definition post_tasks :: "jsobject \<Rightarrow> world \<Rightarrow> response \<times> world" where
  "post_tasks req_body w = post_tasks_on pool_query req_body w"

definition row_json :: "jsobject \<Rightarrow> json" where
  "row_json row = JObj (js_object [(''id'', js_get row ''id''), (''data'', js_get row ''data'')])"

definition get_tasks :: "world \<Rightarrow> response \<times> world" where
  "get_tasks w =
     (case pool_query ''SELECT * FROM tasks;'' [] w of
        Inl e \<Rightarrow> (server_error, w)
      | Inr (res, w1) \<Rightarrow> (res_json 200 (JArr (map row_json (res_rows res))), w1))"

definition get_task :: "string \<Rightarrow> world \<Rightarrow> response \<times> world" where
  "get_task task_id w =
     (case pool_query ''SELECT * FROM tasks WHERE id = $1;'' [PgText task_id] w of
        Inl e \<Rightarrow> (server_error, w)
      | Inr (res, w1) \<Rightarrow>
          (case res_rows res of
             [] \<Rightarrow> (not_found, w1)
           | r # rs \<Rightarrow> (res_json 200 (row_json r), w1)))"

text \<open>The own enumerable properties an object spread \<^verbatim>\<open>{...v}\<close> copies: those of an
  object, the indexed elements of an array, the indexed characters of a string, none of
  any other value.\<close>

definition indexed :: "'a list \<Rightarrow> (string \<times> 'a) list" where
  "indexed xs = zip (map (\<lambda>i. decimal (int i)) [0..<length xs]) xs"

fun own_properties :: "json option \<Rightarrow> jsobject" where
  "own_properties (Some (JObj ps)) = ps"
| "own_properties (Some (JArr xs)) = indexed xs"
| "own_properties (Some (JStr s)) = indexed (map (\<lambda>c. JStr [c]) s)"
| "own_properties _ = []"

text \<open>\<^verbatim>\<open>{ ...a, ...b }\<close>: the properties of \<open>b\<close> are assigned in order onto those of
  \<open>a\<close>; an assignment to a key that is there replaces its value in place, one to a new
  key appends it.\<close>

definition spread :: "jsobject \<Rightarrow> jsobject \<Rightarrow> jsobject" where
  "spread a b = fold (\<lambda>p. AList.update (fst p) (snd p)) b a"

definition put_task :: "string \<Rightarrow> jsobject \<Rightarrow> world \<Rightarrow> response \<times> world" where
  "put_task task_id req_body w =
     (case pool_query ''SELECT * FROM tasks WHERE id = $1;'' [PgText task_id] w of
        Inl e \<Rightarrow> (server_error, w)
      | Inr (res, w1) \<Rightarrow>
          (case res_rows res of
             [] \<Rightarrow> (not_found, w1)
           | r # rs \<Rightarrow>
               (let existingData = js_get r ''data'';
                    updatedData = spread (own_properties existingData) req_body
                in case pool_query ''UPDATE tasks SET data = $datavalues::jsonb WHERE id = $1;''
                          [JSON_stringify (JObj updatedData), PgText task_id] w1 of
                     Inl e \<Rightarrow> (server_error, w1)
                   | Inr (upd, w2) \<Rightarrow>
                       (res_json 200 (JObj (js_object [(''id'', js_get r ''id''),
                                                       (''data'', Some (JObj updatedData))])), w2))))"

definition delete_task :: "string \<Rightarrow> world \<Rightarrow> response \<times> world" where
  "delete_task task_id w =
     (case pool_query ''DELETE FROM tasks WHERE id = $1 RETURNING *;'' [PgText task_id] w of
        Inl e \<Rightarrow> (server_error, w)
      | Inr (result, w1) \<Rightarrow>
          if rowCount result = 0 then (not_found, w1)
          else (case redis_decr ''taskCount'' w1 of
                  Inl e \<Rightarrow> (server_error, w1)
                | Inr (n, w2) \<Rightarrow> (\<lparr>res_status = 204, res_body = None\<rparr>, w2)))"

text \<open>\<^verbatim>\<open>res.json({ taskCount: parseInt(taskCount, 10) })\<close>: \<^verbatim>\<open>null\<close> is read as the string
  \<^verbatim>\<open>null\<close>, and \<^verbatim>\<open>NaN\<close> is serialised as \<^verbatim>\<open>null\<close>.\<close>

definition stats_json :: "string option \<Rightarrow> json" where
  "stats_json taskCount =
     JObj [(''taskCount'',
            json_of_number (parseInt (case taskCount of None \<Rightarrow> ''null'' | Some s \<Rightarrow> s)))]"

definition get_stats :: "world \<Rightarrow> response \<times> world" where
  "get_stats w =
     (case initializeTaskCount w of
        Inl e \<Rightarrow> (server_error, w)
      | Inr w1 \<Rightarrow>
          (case redis_get ''taskCount'' w1 of
             Inl e \<Rightarrow> (server_error, w1)
           | Inr taskCount \<Rightarrow> (res_json 200 (stats_json taskCount), w1)))"

section \<open>Runs of the service\<close>

datatype request =
    PostTasks jsobject
  | GetTasks
  | GetTask string
  | PutTask string jsobject
  | DeleteTask string
  | GetStats

fun handle :: "request \<Rightarrow> world \<Rightarrow> response \<times> world" where
  "handle (PostTasks b) w = post_tasks b w"
| "handle GetTasks w = get_tasks w"
| "handle (GetTask i) w = get_task i w"
| "handle (PutTask i b) w = put_task i b w"
| "handle (DeleteTask i) w = delete_task i w"
| "handle GetStats w = get_stats w"

text \<open>What happens to the service between two requests: a request is served, the cache
  restarts and loses its keys, or one of the two servers becomes reachable or not.\<close>

datatype event =
    Request request
  | CacheRestart
  | PgReachable bool
  | RedisReachable bool

fun step :: "event \<Rightarrow> world \<Rightarrow> world" where
  "step (Request r) w = snd (handle r w)"
| "step CacheRestart w = w\<lparr>redis := []\<rparr>"
| "step (PgReachable b) w = w\<lparr>pg_up := b\<rparr>"
| "step (RedisReachable b) w = w\<lparr>redis_up := b\<rparr>"


text \<open>The creations answered 201 in a run from \<open>w\<close>.\<close>

fun created :: "event \<Rightarrow> world \<Rightarrow> nat" where
  "created (Request (PostTasks b)) w = (if res_status (fst (post_tasks b w)) = 201 then 1 else 0)"
| "created _ w = 0"

fun creations :: "event list \<Rightarrow> world \<Rightarrow> nat" where
  "creations [] w = 0"
| "creations (e # es) w = created e w + creations es (step e w)"

section \<open>What the specification talks about\<close>

text \<open>A valid title, in the words of the specification: present, a string, and
  non-empty after trimming, that is, with a character that is not white space.\<close>

definition title_valid :: "json option \<Rightarrow> bool" where
  "title_valid title =
     (case title of Some (JStr s) \<Rightarrow> \<not> list_all js_whitespace s | _ \<Rightarrow> False)"


text \<open>The counter key, when present, holds the decimal representation of a 64-bit signed
  integer: what \<^verbatim>\<open>INCR\<close> and \<^verbatim>\<open>DECR\<close> accept and write.\<close>

definition counter_in_range :: "world \<Rightarrow> bool" where
  "counter_in_range w =
     (case map_of (redis w) ''taskCount'' of
        None \<Rightarrow> True
      | Some s \<Rightarrow> (case string2ll s of None \<Rightarrow> False | Some n \<Rightarrow> True))"

text \<open>The part of a request body made of the three fields a creation names.\<close>

definition creation_fields :: "jsobject \<Rightarrow> jsobject" where
  "creation_fields b =
     filter (\<lambda>p. fst p = ''title'' \<or> fst p = ''description'' \<or> fst p = ''status'') b"

subsection \<open>Worlds of the scenarios\<close>

definition fresh_world :: world where
  "fresh_world = \<lparr>tasks = [], tasks_id_seq = 1, pg_up = True, redis = [], redis_up = True\<rparr>"

definition task_x :: json where
  "task_x = JObj [(''title'', JStr ''x''), (''description'', JStr ''y''), (''status'', JStr ''pending'')]"

definition one_task_world :: world where
  "one_task_world =
     \<lparr>tasks = [(1, task_x)], tasks_id_seq = 2, pg_up = True,
      redis = [(''taskCount'', ''1'')], redis_up = True\<rparr>"

text \<open>Three durable rows and a counter key that holds a stale \<^verbatim>\<open>0\<close>, with the
  database out of reach.\<close>

definition stale_world :: world where
  "stale_world =
     \<lparr>tasks = [(1, task_x), (2, task_x), (3, task_x)], tasks_id_seq = 4, pg_up = False,
      redis = [(''taskCount'', ''0'')], redis_up = True\<rparr>"

text \<open>Three durable rows, and a cache that has lost the counter key.\<close>

definition evicted_world :: world where
  "evicted_world =
     \<lparr>tasks = [(1, task_x), (2, task_x), (3, task_x)], tasks_id_seq = 4, pg_up = True,
      redis = [], redis_up = True\<rparr>"


section \<open>Decimal numerals are read back\<close>

lemma of_char_digit_char: "d < 10 \<Longrightarrow> (of_char (digit_char d) :: nat) = 48 + d"
  by (simp add: digit_char_def)

lemma is_digit_digit_char: "d < 10 \<Longrightarrow> is_digit (digit_char d)"
  by (simp add: is_digit_def of_char_digit_char)

lemma digit_val_digit_char: "d < 10 \<Longrightarrow> digit_val (digit_char d) = d"
  by (simp add: digit_val_def of_char_digit_char)

lemma digits_val_snoc: "digits_val (ds @ [c]) = 10 * digits_val ds + int (digit_val c)"
  by (simp add: digits_val_def)

lemma decimal_nat_not_Nil: "decimal_nat n \<noteq> []"
  by (subst decimal_nat.simps) simp

lemma decimal_nat_digits: "list_all is_digit (decimal_nat n)"
proof (induction n rule: decimal_nat.induct)
  case (1 n)
  show ?case
  proof (cases "n < 10")
    case True
    then show ?thesis by (subst decimal_nat.simps) (simp add: is_digit_digit_char)
  next
    case False
    with 1 show ?thesis by (subst decimal_nat.simps) (simp add: is_digit_digit_char)
  qed
qed

lemma digits_val_decimal_nat: "digits_val (decimal_nat n) = int n"
proof (induction n rule: decimal_nat.induct)
  case (1 n)
  show ?case
  proof (cases "n < 10")
    case True
    then show ?thesis
      by (subst decimal_nat.simps) (simp add: digits_val_def digit_val_digit_char)
  next
    case False
    with 1 have "digits_val (decimal_nat (n div 10)) = int (n div 10)" by simp
    moreover have "10 * int (n div 10) + int (n mod 10) = int n" by presburger
    ultimately show ?thesis using False
      by (subst decimal_nat.simps) (simp add: digits_val_snoc digit_val_digit_char)
  qed
qed

lemma is_digit_not_special:
  "is_digit c \<Longrightarrow> \<not> js_whitespace c \<and> c \<noteq> CHR ''-'' \<and> c \<noteq> CHR ''+''"
  by (auto simp: is_digit_def js_whitespace_def)

lemma minus_not_whitespace: "\<not> js_whitespace CHR ''-''"
  by (simp add: js_whitespace_def)

lemma takeWhile_all: "list_all P xs \<Longrightarrow> takeWhile P xs = xs"
  by (induction xs) auto






section \<open>Rounding to a double\<close>

lemma bits_le: "n < 2 ^ k \<Longrightarrow> bits n \<le> k"
proof (induction k arbitrary: n)
  case 0
  then have "n = 0" by simp
  then show ?case by (simp add: bits.simps)
next
  case (Suc k)
  show ?case
  proof (cases "n = 0")
    case True
    then show ?thesis by (simp add: bits.simps)
  next
    case False
    from Suc.prems have "n div 2 < 2 ^ k" by simp
    then have "bits (n div 2) \<le> k" by (rule Suc.IH)
    with False show ?thesis by (subst bits.simps) simp
  qed
qed



text \<open>An integer below \<open>2 ^ 53\<close> is a double; one up to \<open>2 ^ 63\<close> rounds to a finite
  double; one from \<open>2 ^ 1024\<close> on overflows.\<close>

lemma round_double_exact:
  assumes "0 \<le> m" and "m < 2 ^ 53"
  shows "round_double m = Some m"
proof -
  from assms have "nat m < 2 ^ 53" by (simp add: nat_less_iff)
  then have "bits (nat m) \<le> 53" by (rule bits_le)
  then have e: "bits (nat m) - 53 = 0" by simp
  have "m < 2 ^ 1024" using assms(2) by (rule less_trans) simp
  then show ?thesis by (simp add: round_double_def e)
qed



lemma to_number_exact: "\<bar>i\<bar> < 2 ^ 53 \<Longrightarrow> to_number i = Num i"
  by (simp add: to_number_def round_double_exact)




text \<open>\<^verbatim>\<open>parseInt\<close> of a decimal representation is the integer, rounded.\<close>

lemma parseInt_decimal: "parseInt (decimal i) = to_number i"
proof (cases "i < 0")
  case True
  then show ?thesis
    using decimal_nat_not_Nil [of "nat (- i)"]
    by (simp add: parseInt_def decimal_def minus_not_whitespace takeWhile_all
        decimal_nat_digits digits_val_decimal_nat)
next
  case False
  obtain c r where cr: "decimal_nat (nat i) = c # r"
    using decimal_nat_not_Nil [of "nat i"] by (cases "decimal_nat (nat i)") auto
  have d: "is_digit c" using decimal_nat_digits [of "nat i"] cr by simp
  have all: "list_all is_digit (c # r)" using decimal_nat_digits [of "nat i"] cr by simp
  have tw: "takeWhile is_digit r = r" using all by (simp add: takeWhile_all)
  have v: "digits_val (c # r) = i" using digits_val_decimal_nat [of "nat i"] cr False by simp
  from False cr d is_digit_not_special [OF d] v show ?thesis
    by (simp add: parseInt_def decimal_def tw)
qed

section \<open>The statements of app.js, as the server answers them\<close>

text \<open>The insert and the update statements of \<^verbatim>\<open>app.js\<close> name a parameter
  \<^verbatim>\<open>$datavalues\<close>: the server rejects both texts.\<close>

lemma insert_text_rejected:
  "\<not> pg_lex_ok ''INSERT INTO tasks (data) VALUES ($datavalues::jsonb) RETURNING id;''"
  by (simp add: is_digit_def)

lemma update_text_rejected:
  "\<not> pg_lex_ok ''UPDATE tasks SET data = $datavalues::jsonb WHERE id = $1;''"
  by (simp add: is_digit_def)

lemma pool_query_insert:
  "pool_query ''INSERT INTO tasks (data) VALUES ($datavalues::jsonb) RETURNING id;'' vals w
     = Inl (if pg_up w then PgSyntaxError else PgConnectionError)"
  using insert_text_rejected by (simp add: pool_query_def)

lemma pool_query_update:
  "pool_query ''UPDATE tasks SET data = $datavalues::jsonb WHERE id = $1;'' vals w
     = Inl (if pg_up w then PgSyntaxError else PgConnectionError)"
  using update_text_rejected by (simp add: pool_query_def)

text \<open>The same insert written with a positional parameter is carried out.\<close>

lemma pool_query_insert_positional:
  "pool_query ''INSERT INTO tasks (data) VALUES ($1::jsonb) RETURNING id;'' [PgJson v] w =
     (if pg_up w
      then Inr (\<lparr>res_rows = [[(''id'', JNum (tasks_id_seq w))]], rowCount = 1\<rparr>,
                w\<lparr>tasks := tasks w @ [(tasks_id_seq w, v)], tasks_id_seq := tasks_id_seq w + 1\<rparr>)
      else Inl PgConnectionError)"
  by (simp add: pool_query_def is_digit_def)

lemma pool_query_count:
  "pool_query ''SELECT COUNT(*)::int AS count FROM tasks;'' [] w =
     (if \<not> pg_up w then Inl PgConnectionError
      else if 2147483647 < int (length (tasks w)) then Inl PgNumericOutOfRange
      else Inr (\<lparr>res_rows = [[(''count'', JNum (int (length (tasks w))))]], rowCount = 1\<rparr>, w))"
  by (simp add: pool_query_def is_digit_def)


lemma pool_query_select_id:
  "pool_query ''SELECT * FROM tasks WHERE id = $1;'' [PgText t] w =
     (if pg_up w
      then (case pg_int4 t of
              None \<Rightarrow> Inl PgInvalidText
            | Some i \<Rightarrow> Inr (select_result (filter (\<lambda>r. fst r = i) (tasks w)), w))
      else Inl PgConnectionError)"
  by (simp add: pool_query_def is_digit_def)


section \<open>The handlers, case by case\<close>

lemma dropWhile_all_iff: "(\<forall>x\<in>set (dropWhile P xs). P x) = (\<forall>x\<in>set xs. P x)"
  by (induction xs) auto

lemma js_trim_empty_iff: "(js_trim s = []) = list_all js_whitespace s"
  by (simp add: js_trim_def dropWhile_eq_Nil_conv dropWhile_all_iff list_all_iff)

text \<open>The test of the title in \<^verbatim>\<open>app.js\<close> rejects exactly the titles that are not valid.\<close>

lemma title_rejected_iff: "title_rejected t = (\<not> title_valid t)"
proof (cases t)
  case None
  then show ?thesis by (simp add: title_rejected_def title_valid_def)
next
  case (Some v)
  then show ?thesis
    by (cases v) (auto simp: title_rejected_def title_valid_def js_trim_empty_iff)
qed

lemma post_tasks_eq:
  "post_tasks b w =
     (if title_rejected (js_get b ''title'')
      then (res_json 400 (JObj [(''error'', JStr ''Title is required'')]), w)
      else (server_error, w))"
  by (simp add: post_tasks_def post_tasks_on_def Let_def pool_query_insert)

text \<open>Every creation with a valid title is answered 500: the insert statement is
  rejected whatever the payload is. No run has a creation answered 201.\<close>

lemma post_tasks_valid_title:
  "title_valid (js_get b ''title'') \<Longrightarrow> post_tasks b w = (server_error, w)"
  by (simp add: post_tasks_eq title_rejected_iff)

lemma created_zero: "created e w = 0"
  by (cases "(e, w)" rule: created.cases)
    (simp_all add: post_tasks_eq server_error_def res_json_def)

lemma creations_zero: "creations es w = 0"
  by (induction es arbitrary: w) (simp_all add: created_zero)



lemma put_task_world: "snd (put_task t b w) = w"
  by (simp add: put_task_def pool_query_select_id pool_query_update select_result_def Let_def
      split: list.splits option.splits)

text \<open>Every update of a stored task is answered 500, whatever the body is.\<close>

lemma put_task_existing:
  assumes "pg_up w" and "pg_int4 t = Some i" and "i \<in> fst ` set (tasks w)"
  shows "put_task t b w = (server_error, w)"
proof -
  from assms(3) have "filter (\<lambda>r. fst r = i) (tasks w) \<noteq> []"
    by (auto simp: filter_empty_conv)
  then obtain r rs where "filter (\<lambda>r. fst r = i) (tasks w) = r # rs"
    by (cases "filter (\<lambda>r. fst r = i) (tasks w)") auto
  with assms(1,2) show ?thesis
    by (simp add: put_task_def pool_query_select_id pool_query_update select_result_def Let_def)
qed

text \<open>The merge an update computes is the shallow merge of the specification: the keys of
  the body win, the other keys of the stored bag are kept.\<close>

lemma spread_empty: "spread a [] = a"
  by (simp add: spread_def)

lemma spread_map_of:
  "distinct (map fst b) \<Longrightarrow> map_of (spread a b) = map_of a ++ map_of b"
proof (induction b arbitrary: a)
  case Nil
  then show ?case by (simp add: spread_def)
next
  case (Cons p b)
  obtain k v where p: "p = (k, v)" by (cases p)
  from Cons.prems p have k: "k \<notin> fst ` set b" and d: "distinct (map fst b)" by auto
  have "spread a (p # b) = spread (AList.update k v a) b" by (simp add: spread_def p)
  also have "map_of \<dots> = map_of (AList.update k v a) ++ map_of b" by (rule Cons.IH [OF d])
  also have "\<dots> = (map_of a)(k \<mapsto> v) ++ map_of b" by (simp add: update_conv')
  also have "\<dots> = map_of a ++ map_of (p # b)"
  proof
    fix x
    from k have "map_of b k = None" by (simp add: map_of_eq_None_iff)
    then show "((map_of a)(k \<mapsto> v) ++ map_of b) x = (map_of a ++ map_of (p # b)) x"
      by (cases "x = k") (auto simp: p map_add_def split: option.splits)
  qed
  finally show ?case .
qed

lemma world_tasks_same [simp]: "w\<lparr>tasks := tasks w\<rparr> = w"
  by simp

lemma initializeTaskCount_present:
  "map_of (redis w) ''taskCount'' = Some v \<Longrightarrow>
   initializeTaskCount w = (if redis_up w then Inr w else Inl RedisConnectionError)"
  by (simp add: initializeTaskCount_def redis_get_def)

lemma initializeTaskCount_absent:
  assumes "map_of (redis w) ''taskCount'' = None"
  shows "initializeTaskCount w =
     (if \<not> redis_up w then Inl RedisConnectionError
      else if \<not> pg_up w then Inl PgConnectionError
      else if 2147483647 < int (length (tasks w)) then Inl PgNumericOutOfRange
      else Inr (w\<lparr>redis := AList.update ''taskCount'' (decimal (int (length (tasks w)))) (redis w)\<rparr>))"
  using assms
  by (simp add: initializeTaskCount_def redis_get_def redis_set_def pool_query_count
      js_get_def js_String_def)

lemma get_stats_absent:
  assumes "map_of (redis w) ''taskCount'' = None" and "redis_up w" and "pg_up w"
    and "int (length (tasks w)) \<le> 2147483647"
  shows "get_stats w =
     (res_json 200 (JObj [(''taskCount'', JNum (int (length (tasks w))))]),
      w\<lparr>redis := AList.update ''taskCount'' (decimal (int (length (tasks w)))) (redis w)\<rparr>)"
proof -
  from assms(4) have "\<bar>int (length (tasks w))\<bar> < 2 ^ 53" by simp
  then have "to_number (int (length (tasks w))) = Num (int (length (tasks w)))"
    by (rule to_number_exact)
  with assms show ?thesis
    by (simp add: get_stats_def initializeTaskCount_absent redis_get_def stats_json_def
        update_conv' parseInt_decimal json_of_number_def)
qed


section \<open>The counter key stays a 64-bit decimal integer\<close>

lemma counter_in_range_tasks [simp]:
  "counter_in_range (w\<lparr>tasks := ts\<rparr>) = counter_in_range w"
  by (simp add: counter_in_range_def)









section \<open>The payload of a creation\<close>

lemma js_get_creation_fields:
  "k = ''title'' \<or> k = ''description'' \<or> k = ''status'' \<Longrightarrow>
   js_get (creation_fields b) k = js_get b k"
  by (induction b) (auto simp: js_get_def creation_fields_def)

lemma task_payload_keys:
  "title_valid t \<Longrightarrow> map fst (task_payload t d s) = [''title'', ''description'', ''status'']"
  by (auto simp: title_valid_def task_payload_def split: option.splits json.splits)

section \<open>The claims\<close>

subsection \<open>C1: the count shown after creations and deletions\<close>


subsection \<open>C2: a creation with a valid title\<close>

text \<open>
  C2, at \<^verbatim>\<open>POST /tasks {title: "Buy milk"}\<close> on an empty table with both servers
  reachable: the insert statement names its parameter \<^verbatim>\<open>$datavalues\<close>, the server
  rejects the text, and the handler answers 500; no row is inserted and the counter is
  not incremented.
\<close>

theorem post_tasks_buy_milk:
  "post_tasks [(''title'', JStr ''Buy milk'')] fresh_world = (server_error, fresh_world)"
  by code_simp

subsection \<open>C3: an update merges the body into the stored bag\<close>

text \<open>
  C3, at \<^verbatim>\<open>PUT /tasks/1 {status: "done"}\<close> on the stored task
  \<^verbatim>\<open>{title: "x", description: "y", status: "pending"}\<close>: the merged bag is computed as the
  specification says, but the update statement names its parameter \<^verbatim>\<open>$datavalues\<close>;
  the server rejects the text, the handler answers 500 and the stored bag is unchanged.
\<close>

theorem put_task_status_done:
  "put_task ''1'' [(''status'', JStr ''done'')] one_task_world = (server_error, one_task_world)
   \<and> spread (own_properties (Some task_x)) [(''status'', JStr ''done'')]
       = [(''title'', JStr ''x''), (''description'', JStr ''y''), (''status'', JStr ''done'')]"
  by code_simp

subsection \<open>C4: the counter is initialised lazily\<close>

text \<open>
  C4. With the cache reachable: when the counter key holds a value, whatever it is,
  \<^verbatim>\<open>initializeTaskCount\<close> returns with the cache and the table as they were. When the
  key is absent and the row count can be read, it writes the decimal row count to the
  key, and \<^verbatim>\<open>GET /stats\<close> answers 200 with that count.
\<close>

theorem initializeTaskCount_lazy:
  assumes "redis_up w"
  shows "(map_of (redis w) ''taskCount'' = Some v \<longrightarrow> initializeTaskCount w = Inr w)
       \<and> (map_of (redis w) ''taskCount'' = None \<and> pg_up w \<and> int (length (tasks w)) \<le> 2147483647 \<longrightarrow>
            initializeTaskCount w =
              Inr (w\<lparr>redis := AList.update ''taskCount'' (decimal (int (length (tasks w)))) (redis w)\<rparr>)
          \<and> get_stats w =
              (res_json 200 (JObj [(''taskCount'', JNum (int (length (tasks w))))]),
               w\<lparr>redis := AList.update ''taskCount'' (decimal (int (length (tasks w)))) (redis w)\<rparr>))"
  using assms
  by (simp add: initializeTaskCount_present initializeTaskCount_absent get_stats_absent)

text \<open>C4, instances: a key holding a stale \<^verbatim>\<open>0\<close> is left alone, with the database out
  of reach; after an eviction, three durable rows give \<^verbatim>\<open>{taskCount: 3}\<close> and the key
  holds \<^verbatim>\<open>3\<close>.\<close>

theorem initializeTaskCount_lazy_witness:
  "redis_up stale_world
   \<and> map_of (redis stale_world) ''taskCount'' = Some ''0''
   \<and> initializeTaskCount stale_world = Inr stale_world
   \<and> redis_up evicted_world
   \<and> map_of (redis evicted_world) ''taskCount'' = None
   \<and> pg_up evicted_world
   \<and> int (length (tasks evicted_world)) \<le> 2147483647
   \<and> get_stats evicted_world =
       (res_json 200 (JObj [(''taskCount'', JNum 3)]),
        evicted_world\<lparr>redis := [(''taskCount'', ''3'')]\<rparr>)"
proof -
  have a: "redis_up stale_world" by code_simp
  have b: "map_of (redis stale_world) ''taskCount'' = Some ''0''" by code_simp
  have c: "redis_up evicted_world" by code_simp
  have d: "map_of (redis evicted_world) ''taskCount'' = None" by code_simp
  have e: "pg_up evicted_world" by code_simp
  have f: "int (length (tasks evicted_world)) = 3" by code_simp
  have g: "redis evicted_world = []" by code_simp
  have h: "decimal 3 = ''3''" by code_simp
  from initializeTaskCount_lazy [OF a, of "''0''"] initializeTaskCount_lazy [OF c, of "''0''"]
    a b c d e f g h
  show ?thesis by simp
qed

subsection \<open>C5: a creation without a valid title\<close>

text \<open>
  C5. A \<^verbatim>\<open>POST /tasks\<close> whose title is missing, not a string, or empty or white space
  only, is answered 400 with \<^verbatim>\<open>{error: "Title is required"}\<close>, and neither the table nor
  the cache changes.
\<close>

theorem post_tasks_invalid_title:
  "\<not> title_valid (js_get b ''title'') \<Longrightarrow>
   post_tasks b w = (res_json 400 (JObj [(''error'', JStr ''Title is required'')]), w)"
  by (simp add: post_tasks_eq title_rejected_iff)

text \<open>C5, instances: no title, a title of three spaces, a title that is a number.\<close>

theorem post_tasks_invalid_title_witness:
  "\<not> title_valid (js_get [(''description'', JStr ''d'')] ''title'')
   \<and> post_tasks [(''description'', JStr ''d'')] one_task_world
       = (res_json 400 (JObj [(''error'', JStr ''Title is required'')]), one_task_world)
   \<and> \<not> title_valid (js_get [(''title'', JStr ''   '')] ''title'')
   \<and> post_tasks [(''title'', JStr ''   '')] one_task_world
       = (res_json 400 (JObj [(''error'', JStr ''Title is required'')]), one_task_world)
   \<and> \<not> title_valid (js_get [(''title'', JNum 5)] ''title'')
   \<and> post_tasks [(''title'', JNum 5)] one_task_world
       = (res_json 400 (JObj [(''error'', JStr ''Title is required'')]), one_task_world)"
proof -
  have a: "\<not> title_valid (js_get [(''description'', JStr ''d'')] ''title'')" by code_simp
  have b: "\<not> title_valid (js_get [(''title'', JStr ''   '')] ''title'')" by code_simp
  have c: "\<not> title_valid (js_get [(''title'', JNum 5)] ''title'')" by code_simp
  from a b c post_tasks_invalid_title [OF a, of one_task_world]
    post_tasks_invalid_title [OF b, of one_task_world]
    post_tasks_invalid_title [OF c, of one_task_world]
  show ?thesis by simp
qed

subsection \<open>C6: reading back a created task\<close>

text \<open>
  C6, at \<^verbatim>\<open>POST /tasks {title: "Buy milk"}\<close> followed by \<^verbatim>\<open>GET /tasks/1\<close> on an empty
  table: the creation is answered 500 and the read 404.
\<close>

theorem create_then_read_buy_milk:
  "res_status (fst (post_tasks [(''title'', JStr ''Buy milk'')] fresh_world)) = 500
   \<and> get_task ''1'' (snd (post_tasks [(''title'', JStr ''Buy milk'')] fresh_world))
       = (not_found, fresh_world)"
  by code_simp

subsection \<open>C7: deleting a task that is not there\<close>




subsection \<open>C8: an update with an empty body\<close>

text \<open>
  C8. A \<^verbatim>\<open>PUT /tasks/:id\<close> with the body \<^verbatim>\<open>{}\<close> leaves every stored attribute bag as
  it was, and the merge of a stored bag with \<^verbatim>\<open>{}\<close> is that bag.
\<close>

theorem put_task_empty_body:
  "tasks (snd (put_task task_id [] w)) = tasks w
   \<and> spread (own_properties (Some (JObj ps))) [] = ps"
  by (simp add: put_task_world spread_empty)

text \<open>C8, an instance: task 1 of the one-task world.\<close>

theorem put_task_empty_body_witness:
  "tasks (snd (put_task ''1'' [] one_task_world)) = [(1, task_x)]
   \<and> spread (own_properties (Some task_x)) []
       = [(''title'', JStr ''x''), (''description'', JStr ''y''), (''status'', JStr ''pending'')]"
proof -
  have a: "tasks one_task_world = [(1, task_x)]" by (simp add: one_task_world_def)
  from put_task_empty_body [of "''1''" one_task_world
      "[(''title'', JStr ''x''), (''description'', JStr ''y''), (''status'', JStr ''pending'')]"] a
  show ?thesis by (simp add: task_x_def)
qed

subsection \<open>C9: the counter key holds a decimal integer\<close>




subsection \<open>C10: a creation keeps three fields\<close>

text \<open>
  C10. For a body with a valid title and any store: the attribute bag has exactly the
  keys \<^verbatim>\<open>title\<close>, \<^verbatim>\<open>description\<close> and \<^verbatim>\<open>status\<close>; what \<^verbatim>\<open>POST /tasks\<close> does is
  decided by the store's answer to the insert statement bound to that bag, and by
  nothing else the store would answer; and it is the same as for the body restricted to
  these three keys.
\<close>

theorem post_tasks_three_fields:
  assumes "title_valid (js_get b ''title'')"
  shows "map fst (task_payload (js_get b ''title'') (js_get b ''description'') (js_get b ''status''))
           = [''title'', ''description'', ''status'']
       \<and> post_tasks_on query b w =
           (case query ''INSERT INTO tasks (data) VALUES ($datavalues::jsonb) RETURNING id;''
                   [JSON_stringify (JObj (task_payload (js_get b ''title'')
                      (js_get b ''description'') (js_get b ''status'')))] w of
              Inl e \<Rightarrow> (server_error, w)
            | Inr (ins, w1) \<Rightarrow>
                (case redis_incr ''taskCount'' w1 of
                   Inl e \<Rightarrow> (server_error, w1)
                 | Inr (n, w2) \<Rightarrow>
                     (case res_rows ins of
                        [] \<Rightarrow> (server_error, w2)
                      | r # rs \<Rightarrow> (res_json 201 (JObj (js_object [(''id'', js_get r ''id'')])), w2))))
       \<and> post_tasks_on query b w = post_tasks_on query (creation_fields b) w"
  using assms
  by (simp add: task_payload_keys js_get_creation_fields post_tasks_on_def title_rejected_iff)

text \<open>C10, instances: the key \<^verbatim>\<open>owner\<close> of the body is not in the bag; against the
  PostgreSQL server the body and its restriction are answered alike; against a store
  that carries the insert out, the row stored has the three keys only.\<close>

theorem post_tasks_three_fields_witness:
  "title_valid (js_get [(''title'', JStr ''Buy milk''), (''owner'', JStr ''me''), (''status'', JNull)] ''title'')
   \<and> task_payload (js_get [(''title'', JStr ''Buy milk''), (''owner'', JStr ''me''), (''status'', JNull)] ''title'')
        (js_get [(''title'', JStr ''Buy milk''), (''owner'', JStr ''me''), (''status'', JNull)] ''description'')
        (js_get [(''title'', JStr ''Buy milk''), (''owner'', JStr ''me''), (''status'', JNull)] ''status'')
       = [(''title'', JStr ''Buy milk''), (''description'', JNull), (''status'', JStr ''pending'')]
   \<and> creation_fields [(''title'', JStr ''Buy milk''), (''owner'', JStr ''me''), (''status'', JNull)]
       = [(''title'', JStr ''Buy milk''), (''status'', JNull)]
   \<and> post_tasks_on pool_query [(''title'', JStr ''Buy milk''), (''owner'', JStr ''me''), (''status'', JNull)] fresh_world
       = post_tasks_on pool_query [(''title'', JStr ''Buy milk''), (''status'', JNull)] fresh_world
   \<and> post_tasks_on (\<lambda>text. pool_query ''INSERT INTO tasks (data) VALUES ($1::jsonb) RETURNING id;'')
        [(''title'', JStr ''Buy milk''), (''owner'', JStr ''me''), (''status'', JNull)] fresh_world
       = (res_json 201 (JObj [(''id'', JNum 1)]),
          \<lparr>tasks = [(1, JObj [(''title'', JStr ''Buy milk''), (''description'', JNull), (''status'', JStr ''pending'')])],
           tasks_id_seq = 2, pg_up = True, redis = [(''taskCount'', ''1'')], redis_up = True\<rparr>)"
proof -
  let ?b = "[(''title'', JStr ''Buy milk''), (''owner'', JStr ''me''), (''status'', JNull)]"
  let ?q = "\<lambda>text. pool_query ''INSERT INTO tasks (data) VALUES ($1::jsonb) RETURNING id;''"
  have a: "title_valid (js_get ?b ''title'')" by code_simp
  have p: "task_payload (js_get ?b ''title'') (js_get ?b ''description'') (js_get ?b ''status'')
       = [(''title'', JStr ''Buy milk''), (''description'', JNull), (''status'', JStr ''pending'')]"
    by code_simp
  have c: "creation_fields ?b = [(''title'', JStr ''Buy milk''), (''status'', JNull)]"
    by code_simp
  have s: "(case ?q ''INSERT INTO tasks (data) VALUES ($datavalues::jsonb) RETURNING id;''
                   [JSON_stringify (JObj [(''title'', JStr ''Buy milk''), (''description'', JNull),
                      (''status'', JStr ''pending'')])] fresh_world of
              Inl e \<Rightarrow> (server_error, fresh_world)
            | Inr (ins, w1) \<Rightarrow>
                (case redis_incr ''taskCount'' w1 of
                   Inl e \<Rightarrow> (server_error, w1)
                 | Inr (n, w2) \<Rightarrow>
                     (case res_rows ins of
                        [] \<Rightarrow> (server_error, w2)
                      | r # rs \<Rightarrow> (res_json 201 (JObj (js_object [(''id'', js_get r ''id'')])), w2))))
       = (res_json 201 (JObj [(''id'', JNum 1)]),
          \<lparr>tasks = [(1, JObj [(''title'', JStr ''Buy milk''), (''description'', JNull), (''status'', JStr ''pending'')])],
           tasks_id_seq = 2, pg_up = True, redis = [(''taskCount'', ''1'')], redis_up = True\<rparr>)"
    by code_simp
  note t1 = post_tasks_three_fields [OF a, of pool_query fresh_world]
  note t2 = post_tasks_three_fields [OF a, of ?q fresh_world]
  from t1 have "post_tasks_on pool_query ?b fresh_world
      = post_tasks_on pool_query (creation_fields ?b) fresh_world"
    by (rule conjunct2 [OF conjunct2])
  then have e1: "post_tasks_on pool_query ?b fresh_world
      = post_tasks_on pool_query [(''title'', JStr ''Buy milk''), (''status'', JNull)] fresh_world"
    by (simp only: c)
  from t2 have e2: "post_tasks_on ?q ?b fresh_world
      = (res_json 201 (JObj [(''id'', JNum 1)]),
          \<lparr>tasks = [(1, JObj [(''title'', JStr ''Buy milk''), (''description'', JNull), (''status'', JStr ''pending'')])],
           tasks_id_seq = 2, pg_up = True, redis = [(''taskCount'', ''1'')], redis_up = True\<rparr>)"
    by (simp only: p s)
  from a p c e1 e2 show ?thesis by blast
qed

end
